theory Spec2Isabelle
  imports
    Complex_Main
    "HOL-Library.Sublist"
    "HOL-Library.Multiset"
    "HOL-Library.List_Lexorder"
    "HOL-Library.Product_Lexorder"
begin

section \<open>Python text\<close>

text \<open>
  A Python \<open>str\<close> is a sequence of Unicode code points, so a text is a list of code
  points here: the rupee sign is the single element 8377, and the order on texts
  (\<open>List_Lexorder\<close>) is Python's comparison of \<open>str\<close>. \<open>py\<close> embeds an ASCII literal.

  Case mapping and digits are modelled for ASCII: \<open>str.lower\<close> maps A..Z only and a digit
  is one of 0..9. Whitespace is the full set of \<open>str.isspace\<close>.
\<close>

type_synonym pystr = "nat list"

definition py :: "string \<Rightarrow> pystr" where
  "py s = map of_char s"

definition is_space :: "nat \<Rightarrow> bool" where
  "is_space c = (c \<in> set [9, 10, 11, 12, 13, 28, 29, 30, 31, 32, 133, 160, 5760,
     8192, 8193, 8194, 8195, 8196, 8197, 8198, 8199, 8200, 8201, 8202,
     8232, 8233, 8239, 8287, 12288])"

definition is_digit :: "nat \<Rightarrow> bool" where
  "is_digit c = (48 \<le> c \<and> c \<le> 57)"

definition is_upper :: "nat \<Rightarrow> bool" where
  "is_upper c = (65 \<le> c \<and> c \<le> 90)"

definition is_lower :: "nat \<Rightarrow> bool" where
  "is_lower c = (97 \<le> c \<and> c \<le> 122)"

definition lower_char :: "nat \<Rightarrow> nat" where
  "lower_char c = (if is_upper c then c + 32 else c)"

definition upper_char :: "nat \<Rightarrow> nat" where
  "upper_char c = (if is_lower c then c - 32 else c)"

text \<open>\<open>s.lower()\<close>\<close>

definition str_lower :: "pystr \<Rightarrow> pystr" where
  "str_lower s = map lower_char s"

text \<open>\<open>s.strip()\<close>\<close>

definition str_strip :: "pystr \<Rightarrow> pystr" where
  "str_strip s = rev (dropWhile is_space (rev (dropWhile is_space s)))"

text \<open>\<open>s.replace(old, new)\<close> for a non-empty \<open>old\<close>: occurrences are replaced from the
  left and do not overlap.\<close>

fun str_replace :: "pystr \<Rightarrow> pystr \<Rightarrow> pystr \<Rightarrow> pystr" where
  "str_replace old new [] = []"
| "str_replace old new (c # cs) =
     (if old \<noteq> [] \<and> prefix old (c # cs)
      then new @ str_replace old new (drop (length old) (c # cs))
      else c # str_replace old new cs)"

text \<open>\<open>sub in s\<close>\<close>

fun str_contains :: "pystr \<Rightarrow> pystr \<Rightarrow> bool" where
  "str_contains sub [] = (sub = [])"
| "str_contains sub (c # cs) = (prefix sub (c # cs) \<or> str_contains sub cs)"

text \<open>\<open>s.split()\<close>: the maximal runs of non-whitespace, in order.\<close>

fun split_ws :: "pystr \<Rightarrow> pystr \<Rightarrow> pystr list" where
  "split_ws cur [] = (if cur = [] then [] else [cur])"
| "split_ws cur (c # cs) =
     (if is_space c then (if cur = [] then split_ws [] cs else cur # split_ws [] cs)
      else split_ws (cur @ [c]) cs)"

definition str_split :: "pystr \<Rightarrow> pystr list" where
  "str_split s = split_ws [] s"

text \<open>\<open>s.split(sep)\<close> for a one-character separator: empty pieces are kept.\<close>

fun split_sep :: "nat \<Rightarrow> pystr \<Rightarrow> pystr \<Rightarrow> pystr list" where
  "split_sep d cur [] = [cur]"
| "split_sep d cur (c # cs) =
     (if c = d then cur # split_sep d [] cs else split_sep d (cur @ [c]) cs)"

definition str_split_on :: "nat \<Rightarrow> pystr \<Rightarrow> pystr list" where
  "str_split_on d s = split_sep d [] s"

text \<open>\<open>s.title()\<close>: a letter that follows a non-letter is upper-cased, every other letter
  lower-cased.\<close>

fun title_from :: "bool \<Rightarrow> pystr \<Rightarrow> pystr" where
  "title_from prev [] = []"
| "title_from prev (c # cs) =
     (if is_upper c \<or> is_lower c
      then (if prev then lower_char c else upper_char c) # title_from True cs
      else c # title_from False cs)"

definition str_title :: "pystr \<Rightarrow> pystr" where
  "str_title s = title_from False s"

text \<open>\<open>str(n)\<close> for an integer.\<close>

fun digits :: "nat \<Rightarrow> pystr" where
  "digits n = (if n < 10 then [48 + n] else digits (n div 10) @ [48 + n mod 10])"

declare digits.simps [simp del]

definition str_of_int :: "int \<Rightarrow> pystr" where
  "str_of_int i = (if i < 0 then 45 # digits (nat (- i)) else digits (nat i))"

subsection \<open>Exceptions\<close>

datatype py_error =
  ValueError | IndexError | TypeError | FileNotFoundError | ValidationError pystr
| LoadError py_error

text \<open>An exception ends the computation it is raised in.\<close>

definition thenE :: "'e + 'a \<Rightarrow> ('a \<Rightarrow> 'e + 'b) \<Rightarrow> 'e + 'b" where
  "thenE m k = (case m of Inl e \<Rightarrow> Inl e | Inr x \<Rightarrow> k x)"

text \<open>\<open>int(s)\<close>: surrounding whitespace is dropped, one sign is allowed, and single
  underscores may separate digits. \<open>None\<close> is the \<open>ValueError\<close>.\<close>

fun parse_digits :: "nat \<Rightarrow> pystr \<Rightarrow> nat option" where
  "parse_digits acc [] = Some acc"
| "parse_digits acc (c # cs) =
     (if is_digit c then parse_digits (10 * acc + (c - 48)) cs
      else if c = 95 then
        (case cs of
           [] \<Rightarrow> None
         | d # ds \<Rightarrow> if is_digit d then parse_digits (10 * acc + (d - 48)) ds else None)
      else None)"

definition parse_nat :: "pystr \<Rightarrow> nat option" where
  "parse_nat s =
     (case s of
        [] \<Rightarrow> None
      | c # cs \<Rightarrow> if is_digit c then parse_digits (c - 48) cs else None)"

definition py_int :: "pystr \<Rightarrow> int option" where
  "py_int s =
     (case str_strip s of
        [] \<Rightarrow> None
      | c # cs \<Rightarrow>
          if c = 45 then map_option (\<lambda>n. - int n) (parse_nat cs)
          else if c = 43 then map_option int (parse_nat cs)
          else map_option int (parse_nat (c # cs)))"

section \<open>Cell values and numeric cleaning\<close>

text \<open>
  A raw cell is a text, a number or the missing value \<open>np.nan\<close>. Numbers are exact reals:
  the rounding of binary floating point is not modelled.
\<close>

datatype pyval = Str pystr | Num real | NaN

definition rupee :: pystr where
  "rupee = [8377]"

text \<open>\<open>RealEstateDataProcessor._clean_numeric_value\<close>\<close>

definition clean_numeric_value :: "pyval \<Rightarrow> pyval" where
  "clean_numeric_value v =
     (case v of
        Str s \<Rightarrow>
          (let s' = str_strip (str_replace rupee [] (str_replace (py '','') [] s))
           in if s' = [] \<or> str_lower s' = py ''na'' then NaN else Str s')
      | _ \<Rightarrow> v)"

text \<open>
  \<open>pd.to_numeric(..., errors='coerce')\<close>, cell by cell. How pandas reads a text as a
  number is the parameter \<open>parse\<close>; a text it cannot read becomes missing.
\<close>

definition to_numeric :: "(pystr \<Rightarrow> real option) \<Rightarrow> pyval \<Rightarrow> pyval" where
  "to_numeric parse v =
     (case v of
        Str s \<Rightarrow> (case parse s of Some x \<Rightarrow> Num x | None \<Rightarrow> NaN)
      | _ \<Rightarrow> v)"

text \<open>A reader of plain integer numerals, one instance of \<open>parse\<close>.\<close>

definition parse_plain :: "pystr \<Rightarrow> real option" where
  "parse_plain s = map_option real_of_int (py_int s)"

section \<open>The canonical dataset\<close>

text \<open>
  The processor's \<open>self.df\<close>. A frame is its column labels, in order, and its rows, in
  order. A row carries the two text fields and the year of the canonical schema as fields
  of their own, and every other column as a cell under its label; a label with no cell in
  a row reads as missing.
\<close>

record row =
  final_location :: pystr
  city :: pystr
  year :: int
  cells :: "(pystr \<times> pyval) list"

record dataframe =
  columns :: "pystr list"
  rows :: "row list"

definition cell :: "row \<Rightarrow> pystr \<Rightarrow> pyval" where
  "cell r c = (case map_of (cells r) c of Some v \<Rightarrow> v | None \<Rightarrow> NaN)"

text \<open>\<open>df.empty\<close>: one of the two axes has length 0.\<close>

definition df_empty :: "dataframe \<Rightarrow> bool" where
  "df_empty df = (rows df = [] \<or> columns df = [])"

section \<open>Loading and normalization\<close>

definition COLUMN_MAP :: "(pystr \<times> pystr) list" where
  "COLUMN_MAP =
     [(py ''final location'', py ''final_location''),
      (py ''year'', py ''year''),
      (py ''city'', py ''city''),
      (py ''loc_lat'', py ''loc_lat''),
      (py ''loc_lng'', py ''loc_lng''),
      (py ''total_sales - igr'', py ''total_sales''),
      (py ''total sold - igr'', py ''total_sold''),
      (py ''flat_sold - igr'', py ''flat_sold''),
      (py ''office_sold - igr'', py ''office_sold''),
      (py ''others_sold - igr'', py ''others_sold''),
      (py ''shop_sold - igr'', py ''shop_sold''),
      (py ''commercial_sold - igr'', py ''commercial_sold''),
      (py ''other_sold - igr'', py ''other_sold''),
      (py ''residential_sold - igr'', py ''residential_sold''),
      (py ''flat - weighted average rate'', py ''flat_weighted_avg_rate''),
      (py ''office - weighted average rate'', py ''office_weighted_avg_rate''),
      (py ''others - weighted average rate'', py ''others_weighted_avg_rate''),
      (py ''shop - weighted average rate'', py ''shop_weighted_avg_rate''),
      (py ''flat - most prevailing rate - range'', py ''flat_prevailing_rate_range''),
      (py ''office - most prevailing rate - range'', py ''office_prevailing_rate_range''),
      (py ''others - most prevailing rate - range'', py ''others_prevailing_rate_range''),
      (py ''shop - most prevailing rate - range'', py ''shop_prevailing_rate_range''),
      (py ''total units'', py ''total_units''),
      (py ''total carpet area supplied (sqft)'', py ''total_carpet_area''),
      (py ''flat total'', py ''flat_total''),
      (py ''shop total'', py ''shop_total''),
      (py ''office total'', py ''office_total''),
      (py ''others total'', py ''others_total'')]"

definition NUMERIC_COLUMNS :: "pystr list" where
  "NUMERIC_COLUMNS =
     [py ''year'',
      py ''loc_lat'',
      py ''loc_lng'',
      py ''total_sales'',
      py ''total_sold'',
      py ''flat_sold'',
      py ''office_sold'',
      py ''others_sold'',
      py ''shop_sold'',
      py ''commercial_sold'',
      py ''other_sold'',
      py ''residential_sold'',
      py ''flat_weighted_avg_rate'',
      py ''office_weighted_avg_rate'',
      py ''others_weighted_avg_rate'',
      py ''shop_weighted_avg_rate'',
      py ''total_units'',
      py ''total_carpet_area'',
      py ''flat_total'',
      py ''shop_total'',
      py ''office_total'',
      py ''others_total'']"

definition DB_FIELDS :: "pystr list" where
  "DB_FIELDS = map snd COLUMN_MAP"

text \<open>
  What \<open>pd.read_csv\<close> or \<open>pd.read_excel\<close> hands over: the header texts and, per record,
  one raw cell per header.
\<close>

record raw_frame =
  headers :: "pystr list"
  records :: "pyval list list"

text \<open>\<open>col.strip().lower()\<close>, then \<open>df.rename(columns=COLUMN_MAP)\<close>\<close>

definition reconcile :: "pystr \<Rightarrow> pystr" where
  "reconcile h =
     (let k = str_lower (str_strip h)
      in case map_of COLUMN_MAP k of Some c \<Rightarrow> c | None \<Rightarrow> k)"

definition missing_cols :: "pystr list \<Rightarrow> pystr list" where
  "missing_cols cols = filter (\<lambda>c. c \<notin> set cols) DB_FIELDS"

definition lookup :: "(pystr \<times> pyval) list \<Rightarrow> pystr \<Rightarrow> pyval" where
  "lookup kv c = (case map_of kv c of Some v \<Rightarrow> v | None \<Rightarrow> NaN)"

text \<open>The loop over \<open>NUMERIC_COLUMNS\<close>: clean, then coerce; a database row is coerced
  without cleaning.\<close>

definition coerce_numeric ::
  "(pystr \<Rightarrow> real option) \<Rightarrow> bool \<Rightarrow> (pystr \<times> pyval) list \<Rightarrow> (pystr \<times> pyval) list" where
  "coerce_numeric parse clean kv =
     map (\<lambda>(c, v).
            if c \<in> set NUMERIC_COLUMNS
            then (c, to_numeric parse (if clean then clean_numeric_value v else v))
            else (c, v)) kv"

text \<open>\<open>.astype(int)\<close> truncates a float toward zero and raises on a missing value.\<close>

definition trunc :: "real \<Rightarrow> int" where
  "trunc x = (if 0 \<le> x then \<lfloor>x\<rfloor> else \<lceil>x\<rceil>)"

definition astype_int :: "pyval \<Rightarrow> py_error + int" where
  "astype_int v = (case v of Num x \<Rightarrow> Inr (trunc x) | _ \<Rightarrow> Inl ValueError)"

text \<open>
  The two text fields of a row that has them. Location and city names are texts: a
  number in their place is outside the model and is an error here.
\<close>

definition text_of :: "pyval \<Rightarrow> py_error + pystr" where
  "text_of v = (case v of Str s \<Rightarrow> Inr s | _ \<Rightarrow> Inl TypeError)"

definition key_columns :: "pystr list" where
  "key_columns = [py ''final_location'', py ''city'', py ''year'']"

text \<open>
  \<open>df['year'].astype(int)\<close> over every record, then
  \<open>df.dropna(subset=['final_location', 'city'])\<close>: the surviving rows, in input order.
\<close>

fun surviving_rows :: "(pystr \<times> pyval) list list \<Rightarrow> py_error + row list" where
  "surviving_rows [] = Inr []"
| "surviving_rows (kv # kvs) =
     thenE (astype_int (lookup kv (py ''year''))) (\<lambda>y.
     thenE (surviving_rows kvs) (\<lambda>rs.
       if lookup kv (py ''final_location'') = NaN \<or> lookup kv (py ''city'') = NaN then Inr rs
       else
         thenE (text_of (lookup kv (py ''final_location''))) (\<lambda>loc.
         thenE (text_of (lookup kv (py ''city''))) (\<lambda>cty.
           Inr (\<lparr>final_location = loc, city = cty, year = y,
                 cells = filter (\<lambda>(c, v). c \<notin> set key_columns) kv\<rparr> # rs)))))"

text \<open>
  \<open>df.sort_values(['final_location', 'year'])\<close>. On several keys pandas sorts through a
  lexicographic sort of the key codes, which is stable, so this is the stable sort by the
  pair.
\<close>

definition row_key :: "row \<Rightarrow> pystr \<times> int" where
  "row_key r = (final_location r, year r)"

definition sort_values :: "row list \<Rightarrow> row list" where
  "sort_values rs = sort_key row_key rs"

text \<open>
  \<open>_load_from_external_source\<close>, from the frame that was read; \<open>None\<close> is no file and no
  URL. Labels are taken to be distinct after reconciliation; pandas raises on a
  duplicated label of a column that is read by its label.
\<close>

definition external_rows :: "(pystr \<Rightarrow> real option) \<Rightarrow> raw_frame \<Rightarrow> py_error + row list" where
  "external_rows parse raw =
     (let cols = map reconcile (headers raw)
      in if missing_cols cols \<noteq> [] \<or> \<not> distinct cols then Inl ValueError
         else surviving_rows (map (\<lambda>vals. coerce_numeric parse True (zip cols vals)) (records raw)))"

definition load_from_external_source ::
  "(pystr \<Rightarrow> real option) \<Rightarrow> raw_frame option \<Rightarrow> py_error + dataframe" where
  "load_from_external_source parse src =
     (case src of
        None \<Rightarrow> Inl FileNotFoundError
      | Some raw \<Rightarrow>
          thenE (external_rows parse raw) (\<lambda>rs.
            Inr \<lparr>columns = map reconcile (headers raw), rows = sort_values rs\<rparr>))"

text \<open>
  \<open>_load_from_database\<close>, from the rows of \<open>queryset.values(*DB_FIELDS)\<close>, each a list of
  the values of \<open>DB_FIELDS\<close>; \<open>None\<close> is the \<open>return None\<close> of an empty table.
\<close>

definition database_rows :: "(pystr \<Rightarrow> real option) \<Rightarrow> pyval list list \<Rightarrow> py_error + row list" where
  "database_rows parse recs =
     surviving_rows (map (\<lambda>vals. coerce_numeric parse False (zip DB_FIELDS vals)) recs)"

definition load_from_database ::
  "(pystr \<Rightarrow> real option) \<Rightarrow> pyval list list \<Rightarrow> py_error + dataframe option" where
  "load_from_database parse recs =
     (if recs = [] then Inr None
      else thenE (database_rows parse recs) (\<lambda>rs.
             Inr (Some \<lparr>columns = DB_FIELDS, rows = sort_values rs\<rparr>)))"

text \<open>\<open>load_data\<close>: the database when it is preferred and has rows, else the external
  source; any exception is raised again as one load error.\<close>

definition load_data ::
  "(pystr \<Rightarrow> real option) \<Rightarrow> bool \<Rightarrow> pyval list list \<Rightarrow> raw_frame option \<Rightarrow> py_error + dataframe" where
  "load_data parse prefer_database recs src =
     (case (if prefer_database then load_from_database parse recs else Inr None) of
        Inl e \<Rightarrow> Inl (LoadError e)
      | Inr (Some df) \<Rightarrow> Inr df
      | Inr None \<Rightarrow>
          (case load_from_external_source parse src of
             Inl e \<Rightarrow> Inl (LoadError e)
           | Inr df \<Rightarrow> Inr df))"

section \<open>Filters\<close>

text \<open>
  The \<open>filters\<close> dictionary. A key that is absent, and a key bound to \<open>None\<close>, read as
  \<open>None\<close> through \<open>filters.get\<close>; Python's truth test then takes \<open>None\<close>, the empty
  text and \<open>0\<close> as false.
\<close>

record filters =
  locality :: "pystr option"
  year_range :: "pystr option"
  property_type :: "pystr option"
  year_from :: "int option"
  year_to :: "int option"

definition truthy :: "pystr option \<Rightarrow> bool" where
  "truthy v = (case v of None \<Rightarrow> False | Some s \<Rightarrow> s \<noteq> [])"

definition truthy_int :: "int option \<Rightarrow> bool" where
  "truthy_int v = (case v of None \<Rightarrow> False | Some n \<Rightarrow> n \<noteq> 0)"

definition no_filters :: filters where
  "no_filters = \<lparr>locality = None, year_range = None, property_type = None,
                 year_from = None, year_to = None\<rparr>"

subsection \<open>\<open>RealEstateDataProcessor.filter_data\<close>\<close>

text \<open>\<open>df[df['final_location'].str.lower() == locality.lower()]\<close>\<close>

definition apply_locality :: "pystr option \<Rightarrow> row list \<Rightarrow> row list" where
  "apply_locality loc rs =
     (if truthy loc
      then filter (\<lambda>r. str_lower (final_location r) = str_lower (the loc)) rs
      else rs)"

text \<open>\<open>int(year_range.split()[1])\<close>: the index raises \<open>IndexError\<close>, the conversion
  \<open>ValueError\<close>.\<close>

definition last_years :: "pystr \<Rightarrow> py_error + int" where
  "last_years s =
     (case str_split s of
        a # t # ts \<Rightarrow> (case py_int t of Some n \<Rightarrow> Inr n | None \<Rightarrow> Inl ValueError)
      | _ \<Rightarrow> Inl IndexError)"

text \<open>\<open>start_year, end_year = map(int, year_range.split('-'))\<close>: a conversion that fails
  and an unpacking of other than two values both raise \<open>ValueError\<close>.\<close>

definition year_bounds :: "pystr \<Rightarrow> py_error + int \<times> int" where
  "year_bounds s =
     (case str_split_on 45 s of
        [a, b] \<Rightarrow>
          (case py_int a of
             None \<Rightarrow> Inl ValueError
           | Some x \<Rightarrow> (case py_int b of None \<Rightarrow> Inl ValueError | Some y \<Rightarrow> Inr (x, y)))
      | _ \<Rightarrow> Inl ValueError)"

text \<open>\<open>except (ValueError, IndexError): pass\<close>\<close>

definition caught :: "py_error \<Rightarrow> bool" where
  "caught e = (e = ValueError \<or> e = IndexError)"

definition apply_year_range :: "int \<Rightarrow> pystr option \<Rightarrow> row list \<Rightarrow> py_error + row list" where
  "apply_year_range current_year yr rs =
     (if truthy yr then
        (if prefix (py ''last '') (str_lower (the yr)) then
           (case last_years (the yr) of
              Inr years \<Rightarrow> Inr (filter (\<lambda>r. current_year - years \<le> year r) rs)
            | Inl e \<Rightarrow> if caught e then Inr rs else Inl e)
         else if 45 \<in> set (the yr) then
           (case year_bounds (the yr) of
              Inr (start_year, end_year) \<Rightarrow>
                Inr (filter (\<lambda>r. start_year \<le> year r \<and> year r \<le> end_year) rs)
            | Inl e \<Rightarrow> if caught e then Inr rs else Inl e)
         else Inr rs)
      else Inr rs)"

text \<open>\<open>df[column_name] > 0\<close>: a missing value compares false, and a text against a number
  raises \<open>TypeError\<close>.\<close>

definition gt0 :: "pyval \<Rightarrow> py_error + bool" where
  "gt0 v = (case v of Num x \<Rightarrow> Inr (0 < x) | NaN \<Rightarrow> Inr False | Str s \<Rightarrow> Inl TypeError)"

fun filter_rows :: "(row \<Rightarrow> py_error + bool) \<Rightarrow> row list \<Rightarrow> py_error + row list" where
  "filter_rows p [] = Inr []"
| "filter_rows p (r # rs) =
     (case p r of
        Inl e \<Rightarrow> Inl e
      | Inr b \<Rightarrow>
          (case filter_rows p rs of
             Inl e \<Rightarrow> Inl e
           | Inr rs' \<Rightarrow> Inr (if b then r # rs' else rs')))"

definition apply_property_type ::
  "pystr list \<Rightarrow> pystr option \<Rightarrow> row list \<Rightarrow> py_error + row list" where
  "apply_property_type cols pt rs =
     (if truthy pt then
        (let column_name = str_lower (the pt) @ py ''_sold''
         in if column_name \<in> set cols
            then filter_rows (\<lambda>r. gt0 (cell r column_name)) rs
            else Inr rs)
      else Inr rs)"

definition filter_data :: "int \<Rightarrow> dataframe \<Rightarrow> filters \<Rightarrow> py_error + dataframe" where
  "filter_data current_year df f =
     (case apply_year_range current_year (year_range f)
             (apply_locality (locality f) (rows df)) of
        Inl e \<Rightarrow> Inl e
      | Inr rs \<Rightarrow>
          (case apply_property_type (columns df) (property_type f) rs of
             Inl e \<Rightarrow> Inl e
           | Inr rs' \<Rightarrow> Inr (df\<lparr>rows := rs'\<rparr>)))"

subsection \<open>What the filters mean\<close>









section \<open>Aggregation\<close>

text \<open>\<open>df[c]\<close>, and \<open>.unique()\<close>, which keeps first occurrences in order.\<close>

definition column :: "dataframe \<Rightarrow> pystr \<Rightarrow> pyval list" where
  "column df c = map (\<lambda>r. cell r c) (rows df)"

definition unique :: "'a list \<Rightarrow> 'a list" where
  "unique xs = rev (remdups (rev xs))"

text \<open>
  \<open>.sum()\<close> and \<open>.mean()\<close> skip missing values; the sum of nothing is 0 and the mean of
  nothing is missing. The columns read here are numeric in a canonical dataset; a text
  cell among them is an error in the model.
\<close>

fun nansum :: "pyval list \<Rightarrow> py_error + real" where
  "nansum [] = Inr 0"
| "nansum (v # vs) =
     (case v of
        Str s \<Rightarrow> Inl TypeError
      | Num x \<Rightarrow> thenE (nansum vs) (\<lambda>t. Inr (x + t))
      | NaN \<Rightarrow> nansum vs)"

definition count_numbers :: "pyval list \<Rightarrow> nat" where
  "count_numbers vs = length (filter (\<lambda>v. v \<noteq> NaN) vs)"

definition nanmean :: "pyval list \<Rightarrow> py_error + real option" where
  "nanmean vs =
     thenE (nansum vs) (\<lambda>t.
       Inr (if count_numbers vs = 0 then None else Some (t / real (count_numbers vs))))"

subsection \<open>\<open>RealEstateDataProcessor.generate_summary\<close>\<close>

text \<open>\<open>df[[col for col in df.columns if col.endswith('_sold')]].sum()\<close>: one sum per sold
  column, in column order.\<close>

definition sold_columns :: "dataframe \<Rightarrow> pystr list" where
  "sold_columns df = filter (suffix (py ''_sold'')) (columns df)"

fun sums_of :: "dataframe \<Rightarrow> pystr list \<Rightarrow> py_error + (pystr \<times> real) list" where
  "sums_of df [] = Inr []"
| "sums_of df (c # cs) =
     thenE (nansum (column df c)) (\<lambda>t.
       thenE (sums_of df cs) (\<lambda>ts. Inr ((c, t) # ts)))"

definition property_sums :: "dataframe \<Rightarrow> py_error + (pystr \<times> real) list" where
  "property_sums df = sums_of df (sold_columns df)"

text \<open>\<open>Series.idxmax()\<close>: the label of the first occurrence of the maximum.\<close>

definition idxmax :: "(pystr \<times> real) list \<Rightarrow> pystr option" where
  "idxmax ps =
     (case ps of
        [] \<Rightarrow> None
      | p # qs \<Rightarrow> Some (fst (foldl (\<lambda>best q. if snd best < snd q then q else best) p qs)))"

definition top_property :: "(pystr \<times> real) list \<Rightarrow> pystr" where
  "top_property ps =
     (case idxmax ps of
        None \<Rightarrow> py ''N/A''
      | Some c \<Rightarrow>
          str_title (str_replace (py ''_'') (py '' '') (str_replace (py ''_sold'') [] c)))"

definition units_sold :: "(pystr \<times> real) list \<Rightarrow> real" where
  "units_sold ps = sum_list (map snd ps)"

definition no_data :: pystr where
  "no_data = py ''No data available for the specified filters.''"

text \<open>
  The format \<open>:,.0f\<close> of a float is the parameter \<open>fmt\<close>; a missing mean is passed to it
  as \<open>None\<close>.
\<close>

definition generate_summary :: "(real option \<Rightarrow> pystr) \<Rightarrow> dataframe \<Rightarrow> py_error + pystr" where
  "generate_summary fmt df =
     (if df_empty df then Inr no_data
      else
        (let localities = unique (map final_location (rows df));
             years = sort (unique (map year (rows df)))
         in thenE (nansum (column df (py ''total_sales''))) (\<lambda>total_sales.
            thenE (nanmean (column df (py ''flat_weighted_avg_rate''))) (\<lambda>avg_flat_price.
            thenE (nanmean (column df (py ''office_weighted_avg_rate''))) (\<lambda>avg_office_price.
            thenE (nanmean (column df (py ''shop_weighted_avg_rate''))) (\<lambda>avg_shop_price.
            thenE (property_sums df) (\<lambda>psums.
              (let scope_text =
                     (if length localities = 1 then hd localities
                      else str_of_int (int (length localities)) @ py '' localities'')
               in Inr (py ''Between '' @ str_of_int (hd years) @ py '' and ''
                    @ str_of_int (last years) @ py '', '' @ scope_text @ py '' recorded ''
                    @ rupee @ fmt (Some total_sales) @ py '' in total sales with ''
                    @ fmt (Some (units_sold psums)) @ py '' units sold. ''
                    @ py ''Average prices per sq.ft (Flat/Office/Shop) were ''
                    @ rupee @ fmt avg_flat_price @ py '' / ''
                    @ rupee @ fmt avg_office_price @ py '' / ''
                    @ rupee @ fmt avg_shop_price @ py ''. ''
                    @ py ''Most active segment: '' @ top_property psums @ py ''.'')))))))))"

subsection \<open>\<open>RealEstateDataProcessor.prepare_chart_data\<close>\<close>

text \<open>A chart series: its label, its values, and its presentation constants.\<close>

record dataset =
  label :: pystr
  data :: "real option list"
  style :: "(pystr \<times> pystr) list"

record chart =
  labels :: "int list"
  datasets :: "dataset list"

text \<open>
  \<open>df.groupby('year').agg(...)\<close>: one group per year, in ascending order of year, with
  the three mean rates and the two sums of the group. \<open>rnd d\<close> is \<open>.round(d)\<close>.
\<close>

definition group_rows :: "dataframe \<Rightarrow> int \<Rightarrow> dataframe" where
  "group_rows df y = df\<lparr>rows := filter (\<lambda>r. year r = y) (rows df)\<rparr>"

definition agg_year :: "dataframe \<Rightarrow> int \<Rightarrow> py_error + (real option \<times> real)" where
  "agg_year df y =
     (let g = group_rows df y
      in thenE (nanmean (column g (py ''flat_weighted_avg_rate''))) (\<lambda>flat.
         thenE (nanmean (column g (py ''office_weighted_avg_rate''))) (\<lambda>office.
         thenE (nanmean (column g (py ''shop_weighted_avg_rate''))) (\<lambda>shop.
         thenE (nansum (column g (py ''total_sales''))) (\<lambda>sales.
         thenE (nansum (column g (py ''total_sold''))) (\<lambda>sold.
           Inr (flat, sold)))))))"

fun agg_years :: "dataframe \<Rightarrow> int list \<Rightarrow> py_error + (real option \<times> real) list" where
  "agg_years df [] = Inr []"
| "agg_years df (y # ys) =
     thenE (agg_year df y) (\<lambda>a. thenE (agg_years df ys) (\<lambda>as. Inr (a # as)))"

definition prepare_chart_data :: "(nat \<Rightarrow> real \<Rightarrow> real) \<Rightarrow> dataframe \<Rightarrow> py_error + chart" where
  "prepare_chart_data rnd df =
     (if df_empty df then Inr \<lparr>labels = [], datasets = []\<rparr>
      else
        (let years = sort (remdups (map year (rows df)))
         in thenE (agg_years df years) (\<lambda>yearly_data.
              Inr \<lparr>labels = years,
                   datasets =
                     [\<lparr>label = py ''Avg Flat Price ('' @ rupee @ py ''/sq.ft)'',
                       data = map (\<lambda>(flat, sold). map_option (rnd 2) flat) yearly_data,
                       style = [(py ''borderColor'', py ''rgb(67, 97, 238)''),
                                (py ''tension'', py ''0.2''),
                                (py ''yAxisID'', py ''y'')]\<rparr>,
                      \<lparr>label = py ''Total Units Sold'',
                       data = map (\<lambda>(flat, sold). Some (rnd 0 sold)) yearly_data,
                       style = [(py ''type'', py ''bar''),
                                (py ''backgroundColor'', py ''rgba(230, 57, 70, 0.4)''),
                                (py ''borderColor'', py ''rgba(230, 57, 70, 1)''),
                                (py ''yAxisID'', py ''y1'')]\<rparr>]\<rparr>)))"

subsection \<open>\<open>RealEstateDataProcessor.prepare_table_data\<close>\<close>

text \<open>
  One record per row, in row order: the display columns under their display labels, the
  numeric ones rounded to two places.
\<close>

type_synonym table_row = "(pystr \<times> pyval) list"

definition round_cell :: "(nat \<Rightarrow> real \<Rightarrow> real) \<Rightarrow> pyval \<Rightarrow> pyval" where
  "round_cell rnd v = (case v of Num x \<Rightarrow> Num (rnd 2 x) | _ \<Rightarrow> v)"

definition table_record :: "(nat \<Rightarrow> real \<Rightarrow> real) \<Rightarrow> row \<Rightarrow> table_row" where
  "table_record rnd r =
     [(py ''year'', Num (real_of_int (year r))),
      (py ''Location'', Str (final_location r)),
      (py ''city'', Str (city r)),
      (py ''Total Sales ('' @ rupee @ py '')'', round_cell rnd (cell r (py ''total_sales''))),
      (py ''Total Units Sold'', round_cell rnd (cell r (py ''total_sold''))),
      (py ''Flat Avg Rate ('' @ rupee @ py ''/sq.ft)'',
         round_cell rnd (cell r (py ''flat_weighted_avg_rate''))),
      (py ''Office Avg Rate ('' @ rupee @ py ''/sq.ft)'',
         round_cell rnd (cell r (py ''office_weighted_avg_rate''))),
      (py ''Shop Avg Rate ('' @ rupee @ py ''/sq.ft)'',
         round_cell rnd (cell r (py ''shop_weighted_avg_rate''))),
      (py ''Others Avg Rate ('' @ rupee @ py ''/sq.ft)'',
         round_cell rnd (cell r (py ''others_weighted_avg_rate'')))]"

definition prepare_table_data :: "(nat \<Rightarrow> real \<Rightarrow> real) \<Rightarrow> dataframe \<Rightarrow> table_row list" where
  "prepare_table_data rnd df =
     (if df_empty df then [] else map (table_record rnd) (rows df))"

section \<open>Query interpretation\<close>

subsection \<open>Pattern searches\<close>

text \<open>\<open>re.findall(r'(\d{4})', s)\<close>: the runs of four digits, found from the left without
  overlap.\<close>

fun findall_year :: "pystr \<Rightarrow> pystr list" where
  "findall_year (a # b # c # d # rest) =
     (if is_digit a \<and> is_digit b \<and> is_digit c \<and> is_digit d
      then [a, b, c, d] # findall_year rest
      else findall_year (b # c # d # rest))"
| "findall_year s = []"

text \<open>\<open>re.search(r'(\d{4})\s*-\s*(\d{4})', s)\<close>: the two groups of the leftmost match.\<close>

definition four_digits :: "pystr \<Rightarrow> pystr option" where
  "four_digits s =
     (case s of
        a # b # c # d # rest \<Rightarrow>
          if is_digit a \<and> is_digit b \<and> is_digit c \<and> is_digit d then Some [a, b, c, d] else None
      | _ \<Rightarrow> None)"

definition match_range :: "pystr \<Rightarrow> (pystr \<times> pystr) option" where
  "match_range s =
     (case four_digits s of
        None \<Rightarrow> None
      | Some g1 \<Rightarrow>
          (case dropWhile is_space (drop 4 s) of
             [] \<Rightarrow> None
           | h # t \<Rightarrow>
               if h = 45 then
                 (case four_digits (dropWhile is_space t) of
                    None \<Rightarrow> None
                  | Some g2 \<Rightarrow> Some (g1, g2))
               else None))"

fun search_range :: "pystr \<Rightarrow> (pystr \<times> pystr) option" where
  "search_range [] = None"
| "search_range (c # cs) =
     (case match_range (c # cs) of Some m \<Rightarrow> Some m | None \<Rightarrow> search_range cs)"

text \<open>\<open>re.search(r'last\s+(\d+)\s+years?', s)\<close>: the group of the leftmost match.\<close>

definition match_last :: "pystr \<Rightarrow> pystr option" where
  "match_last s =
     (if prefix (py ''last'') s then
        (let r1 = drop 4 s;
             r2 = dropWhile is_space r1;
             ds = takeWhile is_digit r2;
             r3 = dropWhile is_digit r2;
             r4 = dropWhile is_space r3
         in if takeWhile is_space r1 \<noteq> [] \<and> ds \<noteq> [] \<and> takeWhile is_space r3 \<noteq> []
               \<and> prefix (py ''year'') r4
            then Some ds else None)
      else None)"

fun search_last :: "pystr \<Rightarrow> pystr option" where
  "search_last [] = None"
| "search_last (c # cs) =
     (case match_last (c # cs) of Some m \<Rightarrow> Some m | None \<Rightarrow> search_last cs)"

subsection \<open>\<open>AnalysisQuerySerializer\<close>\<close>

text \<open>
  The request as it arrives: every field may be absent. \<open>validated\<close> is
  \<open>serializer.validated_data\<close>: the query is present, and \<open>year_range\<close>, which the
  serializer does not declare, is not.
\<close>

record request = filters +
  query_param :: "pystr option"

record validated = filters +
  query :: pystr

definition PROPERTY_COLUMNS :: "pystr list" where
  "PROPERTY_COLUMNS = [py ''flat'', py ''office'', py ''shop'', py ''others'',
                       py ''commercial'', py ''residential'']"

text \<open>
  The declared fields: \<open>query\<close> is required and not blank, text fields are trimmed, a
  supplied year lies in 2000..2100, and a supplied property type is blank or one of the
  choices.
\<close>

definition year_field_ok :: "int option \<Rightarrow> bool" where
  "year_field_ok v = (case v of None \<Rightarrow> True | Some y \<Rightarrow> 2000 \<le> y \<and> y \<le> 2100)"

definition fields_ok :: "request \<Rightarrow> bool" where
  "fields_ok req =
     (truthy (map_option str_strip (query_param req))
      \<and> year_field_ok (year_from req) \<and> year_field_ok (year_to req)
      \<and> (case property_type req of
            None \<Rightarrow> True
          | Some p \<Rightarrow> p = [] \<or> p \<in> set PROPERTY_COLUMNS))"

definition to_internal_value :: "request \<Rightarrow> py_error + validated" where
  "to_internal_value req =
     (if fields_ok req
      then Inr \<lparr>locality = map_option str_strip (locality req), year_range = None,
               property_type = property_type req, year_from = year_from req,
               year_to = year_to req, query = str_strip (the (query_param req))\<rparr>
      else Inl (ValidationError (py ''invalid field'')))"

text \<open>\<open>[int(y) for y in year_matches]\<close>\<close>

fun ints_of :: "pystr list \<Rightarrow> py_error + int list" where
  "ints_of [] = Inr []"
| "ints_of (y # ys) =
     (case py_int y of
        None \<Rightarrow> Inl ValueError
      | Some n \<Rightarrow> thenE (ints_of ys) (\<lambda>ns. Inr (n # ns)))"

definition locality_mapping :: "(pystr \<times> pystr) list" where
  "locality_mapping = [(py ''wakad'', py ''Wakad''), (py ''aundh'', py ''Aundh''),
                       (py ''baner'', py ''Baner''), (py ''hinjewadi'', py ''Hinjewadi'')]"

definition year_order_message :: pystr where
  "year_order_message = [39] @ py ''year_from'' @ [39] @ py '' cannot be after ''
                        @ [39] @ py ''year_to'' @ [39]"

text \<open>\<open>AnalysisQuerySerializer.validate\<close>, in its three steps.\<close>

definition check_year_order :: "validated \<Rightarrow> py_error + validated" where
  "check_year_order d =
     (if truthy_int (year_from d) \<and> truthy_int (year_to d)
         \<and> the (year_to d) < the (year_from d)
      then Inl (ValidationError year_order_message)
      else Inr d)"

definition extract_years :: "validated \<Rightarrow> py_error + validated" where
  "extract_years d =
     (if \<not> truthy_int (year_from d) \<or> \<not> truthy_int (year_to d) then
        (let year_matches = findall_year (query d)
         in if 2 \<le> length year_matches then
              thenE (ints_of year_matches) (\<lambda>ns.
                (let years = sort ns
                 in Inr (d\<lparr>year_from := Some (hd years), year_to := Some (last years)\<rparr>)))
            else Inr d)
      else Inr d)"

definition extract_locality :: "validated \<Rightarrow> validated" where
  "extract_locality d =
     (if \<not> truthy (locality d) then
        (case find (\<lambda>(key, value). str_contains key (str_lower (query d))) locality_mapping of
           Some (key, value) \<Rightarrow> d\<lparr>locality := Some value\<rparr>
         | None \<Rightarrow> d)
      else d)"

definition validate :: "validated \<Rightarrow> py_error + validated" where
  "validate d =
     thenE (check_year_order d) (\<lambda>d1.
       thenE (extract_years d1) (\<lambda>d2. Inr (extract_locality d2)))"

text \<open>\<open>serializer.is_valid()\<close> with \<open>serializer.validated_data\<close>: the fields, then
  \<open>validate\<close>.\<close>

definition is_valid :: "request \<Rightarrow> py_error + validated" where
  "is_valid req = thenE (to_internal_value req) validate"

text \<open>The four-digit integers found in a text, in order of occurrence.\<close>

definition year_value :: "pystr \<Rightarrow> int" where
  "year_value m = int (foldl (\<lambda>n c. 10 * n + (c - 48)) 0 m)"

definition years_in :: "pystr \<Rightarrow> int list" where
  "years_in q = map year_value (findall_year q)"

subsection \<open>\<open>RealEstateDataProcessor.process_query\<close>\<close>

record metadata =
  row_count :: nat
  generated_at :: pystr
  ai_summary :: bool

record analysis =
  result_query :: pystr
  summary :: pystr
  chart_data :: chart
  table_data :: "table_row list"
  result_filters :: filters

text \<open>What lies outside the pipeline: the clock, the two number formats, the configured
  time zone and the optional summarizer, which answers \<open>None\<close> when it is absent or
  fails.\<close>

record env =
  clock_year :: int
  float_format :: "real option \<Rightarrow> pystr"
  float_round :: "nat \<Rightarrow> real \<Rightarrow> real"
  time_zone :: pystr
  summarizer :: "pystr \<Rightarrow> analysis \<Rightarrow> pystr option"

definition infer_locality :: "dataframe \<Rightarrow> pystr \<Rightarrow> filters \<Rightarrow> filters" where
  "infer_locality df q f =
     (if \<not> truthy (locality f) \<and> q \<noteq> [] then
        (case find (\<lambda>loc. str_contains (str_lower loc) (str_lower q))
                (unique (map final_location (rows df))) of
           Some loc \<Rightarrow> f\<lparr>locality := Some loc\<rparr>
         | None \<Rightarrow> f)
      else f)"

definition infer_year_range :: "pystr \<Rightarrow> filters \<Rightarrow> filters" where
  "infer_year_range q f =
     (if \<not> truthy (year_range f) \<and> q \<noteq> [] then
        (case search_range q of
           Some (g1, g2) \<Rightarrow> f\<lparr>year_range := Some (g1 @ py ''-'' @ g2)\<rparr>
         | None \<Rightarrow>
             (case search_last (str_lower q) of
                Some g \<Rightarrow> f\<lparr>year_range := Some (py ''last '' @ g)\<rparr>
              | None \<Rightarrow> f))
      else f)"

definition infer_property_type :: "pystr \<Rightarrow> filters \<Rightarrow> filters" where
  "infer_property_type q f =
     (if \<not> truthy (property_type f) \<and> q \<noteq> [] then
        (case find (\<lambda>prop. str_contains prop (str_lower q)) PROPERTY_COLUMNS of
           Some prop \<Rightarrow> f\<lparr>property_type := Some prop\<rparr>
         | None \<Rightarrow> f)
      else f)"

definition resolve_filters :: "dataframe \<Rightarrow> pystr \<Rightarrow> filters \<Rightarrow> filters" where
  "resolve_filters df q f = infer_property_type q (infer_year_range q (infer_locality df q f))"

definition process_query :: "env \<Rightarrow> dataframe \<Rightarrow> pystr \<Rightarrow> filters \<Rightarrow> py_error + analysis" where
  "process_query e df q f0 =
     (let f = resolve_filters df q f0
      in thenE (filter_data (clock_year e) df f) (\<lambda>filtered_df.
         thenE (generate_summary (float_format e) filtered_df) (\<lambda>s.
         thenE (prepare_chart_data (float_round e) filtered_df) (\<lambda>c.
           Inr \<lparr>result_query = q, summary = s, chart_data = c,
                table_data = prepare_table_data (float_round e) filtered_df,
                result_filters = f\<rparr>))))"

subsection \<open>\<open>RealEstateAnalysisView\<close>\<close>

datatype response =
  Ok analysis metadata
| BadRequest py_error
| ServerError

text \<open>\<open>or ''\<close> and \<open>.get(key, '')\<close>\<close>

definition or_blank :: "pystr option \<Rightarrow> pystr option" where
  "or_blank v = (if truthy v then v else Some [])"

definition get_blank :: "pystr option \<Rightarrow> pystr option" where
  "get_blank v = (case v of None \<Rightarrow> Some [] | Some s \<Rightarrow> Some s)"

definition request_filters :: "validated \<Rightarrow> filters" where
  "request_filters d =
     \<lparr>locality = or_blank (locality d), year_range = get_blank (year_range d),
      property_type = get_blank (property_type d),
      year_from = year_from d, year_to = year_to d\<rparr>"

definition maybe_generate_ai_summary :: "env \<Rightarrow> pystr \<Rightarrow> analysis \<Rightarrow> pystr option" where
  "maybe_generate_ai_summary e q a = (if q = [] then None else summarizer e q a)"

definition process_analysis :: "env \<Rightarrow> dataframe \<Rightarrow> validated \<Rightarrow> response" where
  "process_analysis e df d =
     (case process_query e df (query d) (request_filters d) of
        Inl err \<Rightarrow> ServerError
      | Inr a \<Rightarrow>
          (let m = \<lparr>row_count = length (table_data a), generated_at = time_zone e,
                    ai_summary = False\<rparr>
           in case maybe_generate_ai_summary e (query d) a of
                None \<Rightarrow> Ok a m
              | Some t \<Rightarrow>
                  if t \<noteq> [] then Ok (a\<lparr>summary := t\<rparr>) (m\<lparr>ai_summary := True\<rparr>)
                  else Ok a m))"

text \<open>\<open>get\<close> and \<open>post\<close>: an invalid request is answered before the dataset is read.\<close>

definition analyze :: "env \<Rightarrow> dataframe \<Rightarrow> request \<Rightarrow> response" where
  "analyze e df req =
     (case is_valid req of
        Inl err \<Rightarrow> BadRequest err
      | Inr d \<Rightarrow> process_analysis e df d)"

section \<open>A sample dataset\<close>

text \<open>Rows for Baner and Wakad over 2018 to 2023, in normalized order.\<close>

definition sample_row :: "pystr \<Rightarrow> int \<Rightarrow> row" where
  "sample_row loc y =
     \<lparr>final_location = loc, city = py ''Pune'', year = y,
      cells = [(py ''total_sold'', Num 10), (py ''flat_sold'', Num 6),
               (py ''office_sold'', Num 4), (py ''shop_sold'', NaN)]\<rparr>"

definition sample_df :: dataframe where
  "sample_df =
     \<lparr>columns = [py ''final_location'', py ''year'', py ''city'', py ''total_sold'',
                 py ''flat_sold'', py ''office_sold'', py ''shop_sold''],
      rows = map (sample_row (py ''Baner'')) [2018, 2019, 2020, 2021, 2022, 2023]
           @ map (sample_row (py ''Wakad'')) [2018, 2019, 2020, 2021, 2022, 2023]\<rparr>"

text \<open>A request with the given year bounds and query, and nothing else.\<close>

definition sample_request :: "int option \<Rightarrow> int option \<Rightarrow> pystr \<Rightarrow> request" where
  "sample_request yf yt q =
     \<lparr>locality = None, year_range = None, property_type = None,
      year_from = yf, year_to = yt, query_param = Some q\<rparr>"

text \<open>An environment with a fixed clock and no summarizer.\<close>

definition sample_env :: env where
  "sample_env = \<lparr>clock_year = 2025, float_format = (\<lambda>v. []), float_round = (\<lambda>d x. x),
                  time_zone = py ''UTC'', summarizer = (\<lambda>q a. None)\<rparr>"

text \<open>A database table of five records, one of them without a city, and the dataset of
  one of its rows.\<close>

definition db_record :: "pystr \<Rightarrow> real \<Rightarrow> pyval \<Rightarrow> pyval list" where
  "db_record loc y cty =
     [Str loc, Num y, cty, NaN, NaN, Num 5000000, Num 10, Num 6, Num 4, Num 0, NaN, NaN, NaN,
      NaN, Num 7000, NaN, NaN, NaN, Str (py ''6000-8000''), Str [], Str [], Str [],
      NaN, NaN, NaN, NaN, NaN, NaN]"

definition db_table :: "pyval list list" where
  "db_table =
     [db_record (py ''Wakad'') 2021 (Str (py ''Pune'')),
      db_record (py ''Baner'') 2020 (Str (py ''Pune'')),
      db_record (py ''Wakad'') 2020 (Str (py ''Pune'')),
      db_record (py ''Nowhere'') 2019 NaN,
      db_record (py ''Wakad'') 2020 (Str (py ''Mumbai''))]"

definition db_cells :: "(pystr \<times> pyval) list" where
  "db_cells = filter (\<lambda>(c, v). c \<notin> set key_columns) (zip DB_FIELDS (db_record [] 0 NaN))"

definition db_row :: "pystr \<Rightarrow> int \<Rightarrow> pystr \<Rightarrow> row" where
  "db_row loc y cty = \<lparr>final_location = loc, city = cty, year = y, cells = db_cells\<rparr>"

definition one_row_df :: dataframe where
  "one_row_df = \<lparr>columns = DB_FIELDS, rows = [db_row (py ''Wakad'') 2020 (py ''Pune'')]\<rparr>"

section \<open>Numeric cleaning: properties\<close>

lemma str_replace_char: "str_replace [c] [] s = filter (\<lambda>x. x \<noteq> c) s"
  by (induction s) auto

lemma drop_tail_keeps_head:
  assumes "\<not> P a"
  shows "\<exists>zs. rev (dropWhile P (rev (a # ys))) = a # zs"
  using assms by (auto simp: dropWhile_append intro: exI [of _ "rev (dropWhile P (rev ys))"])

lemma str_strip_head: "str_strip s = c # cs \<Longrightarrow> \<not> is_space c"
proof -
  assume h: "str_strip s = c # cs"
  show ?thesis
  proof (cases "dropWhile is_space s")
    case Nil
    have "str_strip s = []" unfolding str_strip_def Nil by simp
    then show ?thesis using h by simp
  next
    case (Cons a ys)
    then have na: "\<not> is_space a"
      by (metis hd_dropWhile list.sel(1) list.distinct(1))
    from na drop_tail_keeps_head [of is_space a ys] obtain zs
      where "rev (dropWhile is_space (rev (a # ys))) = a # zs" by blast
    then have "str_strip s = a # zs" using Cons by (simp only: str_strip_def)
    then show ?thesis using h na by simp
  qed
qed

lemma str_strip_last: "str_strip s \<noteq> [] \<Longrightarrow> \<not> is_space (last (str_strip s))"
proof -
  assume h: "str_strip s \<noteq> []"
  let ?u = "dropWhile is_space (rev (dropWhile is_space s))"
  have ne: "?u \<noteq> []" using h by (simp add: str_strip_def)
  then have "\<not> is_space (hd ?u)" by (rule hd_dropWhile)
  moreover have "last (rev ?u) = hd ?u"
    by (simp add: last_rev)
  ultimately show ?thesis unfolding str_strip_def by simp
qed

lemma dropWhile_fixed: "xs = [] \<or> \<not> P (hd xs) \<Longrightarrow> dropWhile P xs = xs"
  by (cases xs) auto

lemma str_strip_fixed:
  assumes "s = [] \<or> (\<not> is_space (hd s) \<and> \<not> is_space (last s))"
  shows "str_strip s = s"
proof -
  have 1: "dropWhile is_space s = s"
    using assms by (intro dropWhile_fixed) auto
  have "rev s = [] \<or> \<not> is_space (hd (rev s))"
    using assms by (auto simp: hd_rev)
  then have 2: "dropWhile is_space (rev s) = rev s"
    by (rule dropWhile_fixed)
  show ?thesis by (simp add: str_strip_def 1 2)
qed

lemma str_strip_idem: "str_strip (str_strip s) = str_strip s"
proof (rule str_strip_fixed)
  show "str_strip s = [] \<or> (\<not> is_space (hd (str_strip s)) \<and> \<not> is_space (last (str_strip s)))"
  proof (cases "str_strip s")
    case Nil
    then show ?thesis by simp
  next
    case (Cons c cs)
    then have "\<not> is_space c" by (rule str_strip_head)
    moreover have "\<not> is_space (last (str_strip s))"
      using Cons str_strip_last [of s] by simp
    ultimately show ?thesis using Cons by simp
  qed
qed

lemma set_str_strip: "set (str_strip s) \<subseteq> set s"
proof -
  have "set (str_strip s) \<subseteq> set (dropWhile is_space s)"
    unfolding str_strip_def using set_dropWhileD by fastforce
  also have "\<dots> \<subseteq> set s" using set_dropWhileD by fastforce
  finally show ?thesis .
qed

lemma clean_text_fixed:
  assumes "s' = str_strip (str_replace rupee [] (str_replace (py '','') [] s))"
  shows "str_strip (str_replace rupee [] (str_replace (py '','') [] s')) = s'"
proof -
  have "set s' \<subseteq> set (str_replace rupee [] (str_replace (py '','') [] s))"
    unfolding assms by (rule set_str_strip)
  then have no: "44 \<notin> set s'" "8377 \<notin> set s'"
    by (auto simp: rupee_def py_def str_replace_char)
  have "str_replace rupee [] (str_replace (py '','') [] s') = s'"
    using no by (auto simp: rupee_def py_def str_replace_char filter_id_conv)
  then show ?thesis by (simp add: assms str_strip_idem)
qed

lemma clean_numeric_value_idem:
  "clean_numeric_value (clean_numeric_value v) = clean_numeric_value v"
proof (cases v)
  case (Str s)
  define s' where "s' = str_strip (str_replace rupee [] (str_replace (py '','') [] s))"
  have fx: "str_strip (str_replace rupee [] (str_replace (py '','') [] s')) = s'"
    using s'_def by (rule clean_text_fixed)
  show ?thesis
  proof (cases "s' = [] \<or> str_lower s' = py ''na''")
    case True
    then show ?thesis using Str s'_def by (simp add: clean_numeric_value_def Let_def)
  next
    case False
    then have "clean_numeric_value v = Str s'"
      using Str s'_def by (simp add: clean_numeric_value_def Let_def)
    moreover have "clean_numeric_value (Str s') = Str s'"
      using False fx by (simp add: clean_numeric_value_def Let_def)
    ultimately show ?thesis by simp
  qed
qed (simp_all add: clean_numeric_value_def)

lemma str_lower_na:
  assumes "str_lower s = py ''na''"
  shows "s \<in> {py ''na'', py ''NA'', py ''Na'', py ''nA''}"
proof -
  from assms obtain x y where s: "s = [x, y]"
    and x: "lower_char x = 110" and y: "lower_char y = 97"
    by (auto simp: str_lower_def py_def map_eq_Cons_conv)
  from x have "x = 110 \<or> x = 78"
    by (auto simp: lower_char_def is_upper_def split: if_splits)
  moreover from y have "y = 97 \<or> y = 65"
    by (auto simp: lower_char_def is_upper_def split: if_splits)
  ultimately show ?thesis using s by (auto simp: py_def)
qed

lemma clean_na: "s = [] \<or> str_lower s = py ''na'' \<Longrightarrow> clean_numeric_value (Str s) = NaN"
proof (erule disjE)
  assume "s = []"
  then show ?thesis by (simp add: clean_numeric_value_def str_strip_def)
next
  assume "str_lower s = py ''na''"
  then have "s \<in> {py ''na'', py ''NA'', py ''Na'', py ''nA''}" by (rule str_lower_na)
  then show ?thesis
    by (auto simp: clean_numeric_value_def rupee_def py_def str_strip_def is_space_def
        str_lower_def lower_char_def is_upper_def)
qed

lemma clean_rupee_1200:
  "clean_numeric_value (Str (rupee @ py ''1,200'')) = Str (py ''1200'')"
  by (simp add: clean_numeric_value_def rupee_def py_def str_strip_def is_space_def
      str_lower_def lower_char_def is_upper_def)

lemma clean_1200: "clean_numeric_value (Str (py ''1200'')) = Str (py ''1200'')"
  by (simp add: clean_numeric_value_def rupee_def py_def str_strip_def is_space_def
      str_lower_def lower_char_def is_upper_def)

lemma parse_plain_1200: "parse_plain (py ''1200'') = Some 1200"
  by (simp add: parse_plain_def py_int_def parse_nat_def py_def str_strip_def is_space_def
      is_digit_def)

text \<open>
  C9. Cleaning a cell twice is cleaning it once, for every cell value; the clean numeral
  \<open>1200\<close> is left as it is; the rupee sign followed by \<open>1,200\<close> is cleaned to the text \<open>1200\<close>, which
  coercion reads as the number 1200 whenever the reader of numerals reads \<open>1200\<close> so; and
  the empty text and \<open>NA\<close> in any letter case are cleaned to the missing value.
\<close>

theorem clean_numeric_value_idempotent:
  "clean_numeric_value (clean_numeric_value v) = clean_numeric_value v
   \<and> clean_numeric_value (Str (py ''1200'')) = Str (py ''1200'')
   \<and> (parse (py ''1200'') = Some 1200 \<longrightarrow>
        to_numeric parse (clean_numeric_value (Str (rupee @ py ''1,200''))) = Num 1200)
   \<and> (s = [] \<or> str_lower s = py ''na'' \<longrightarrow> clean_numeric_value (Str s) = NaN)"
  by (simp add: clean_numeric_value_idem clean_1200 clean_rupee_1200 clean_na to_numeric_def)

theorem clean_numeric_value_idempotent_witness:
  "clean_numeric_value (clean_numeric_value (Str (py '' 1,200 ''))) =
     clean_numeric_value (Str (py '' 1,200 ''))
   \<and> parse_plain (py ''1200'') = Some 1200
   \<and> to_numeric parse_plain (clean_numeric_value (Str (rupee @ py ''1,200''))) = Num 1200
   \<and> str_lower (py ''NA'') = py ''na''
   \<and> clean_numeric_value (Str (py ''NA'')) = NaN"
proof -
  have l: "str_lower (py ''NA'') = py ''na''"
    by (simp add: str_lower_def py_def lower_char_def is_upper_def)
  show ?thesis
    using clean_numeric_value_idempotent [of "Str (py '' 1,200 '')" parse_plain "py ''NA''"]
      parse_plain_1200 l
    by simp
qed

section \<open>Filtering: properties\<close>
















lemmas text_eval =
  py_def str_lower_def lower_char_def is_upper_def is_lower_def str_strip_def is_space_def
  is_digit_def str_split_def str_split_on_def py_int_def parse_nat_def


lemma py_eq_Nil: "(py s = []) = (s = [])"
  by (simp add: py_def)



text \<open>
  C5. \<open>filter_data\<close> does not read \<open>year_from\<close> and \<open>year_to\<close>: two filter sets that agree on
  locality, year range and property type give the same result on every dataset.
\<close>

theorem filter_data_ignores_year_bounds:
  assumes "locality f = locality g" and "year_range f = year_range g"
    and "property_type f = property_type g"
  shows "filter_data current_year df f = filter_data current_year df g"
  by (simp only: filter_data_def assms)

theorem filter_data_ignores_year_bounds_witness:
  "filter_data 2025 sample_df
     \<lparr>locality = Some (py ''wakad''), year_range = None, property_type = None,
      year_from = Some 2022, year_to = Some 2023\<rparr> =
   filter_data 2025 sample_df
     \<lparr>locality = Some (py ''wakad''), year_range = None, property_type = None,
      year_from = None, year_to = Some 2018\<rparr>"
  by (rule filter_data_ignores_year_bounds) simp_all



section \<open>Request validation: properties\<close>

lemma py_int_four_digits:
  assumes "is_digit a" "is_digit b" "is_digit c" "is_digit d"
  shows "py_int [a, b, c, d] = Some (year_value [a, b, c, d])"
proof -
  have ns: "\<not> is_space a" "\<not> is_space d"
    using assms by (auto simp: is_digit_def is_space_def)
  have "str_strip [a, b, c, d] = [a, b, c, d]"
    using ns by (intro str_strip_fixed) simp
  moreover have "a \<noteq> 45" "a \<noteq> 43" using assms by (auto simp: is_digit_def)
  ultimately show ?thesis using assms by (simp add: py_int_def parse_nat_def year_value_def)
qed

lemma findall_year_digits:
  "m \<in> set (findall_year s) \<Longrightarrow>
   \<exists>a b c d. m = [a, b, c, d] \<and> is_digit a \<and> is_digit b \<and> is_digit c \<and> is_digit d"
  by (induction s rule: findall_year.induct) (auto split: if_splits)

lemma py_int_year: "m \<in> set (findall_year s) \<Longrightarrow> py_int m = Some (year_value m)"
  by (auto dest!: findall_year_digits simp: py_int_four_digits)

lemma ints_of_map:
  "(\<And>m. m \<in> set ms \<Longrightarrow> py_int m = Some (f m)) \<Longrightarrow> ints_of ms = Inr (map f ms)"
  by (induction ms) (auto simp: thenE_def)

lemma ints_of_findall: "ints_of (findall_year s) = Inr (years_in s)"
  unfolding years_in_def by (rule ints_of_map) (rule py_int_year)

lemma hd_sort_Min: "xs \<noteq> [] \<Longrightarrow> hd (sort xs) = Min (set xs)"
proof -
  assume ne: "xs \<noteq> []"
  then have "sort xs \<noteq> []" by (metis length_0_conv length_sort)
  then obtain y ys where s: "sort xs = y # ys" by (cases "sort xs") auto
  have "sorted (y # ys)" using s sorted_sort [of xs] by simp
  then have le: "\<forall>z \<in> set ys. y \<le> z" by simp
  have st: "set xs = set (y # ys)" using s by (metis set_sort)
  have "Min (set xs) = y"
    by (rule Min_eqI) (use le st in auto)
  then show ?thesis using s by simp
qed

lemma sorted_le_last: "sorted ys \<Longrightarrow> z \<in> set ys \<Longrightarrow> z \<le> last ys"
  by (induction ys) auto

lemma last_sort_Max: "xs \<noteq> [] \<Longrightarrow> last (sort xs) = Max (set xs)"
proof -
  assume ne: "xs \<noteq> []"
  then have n: "sort xs \<noteq> []" by (metis length_0_conv length_sort)
  have "Max (set xs) = last (sort xs)"
  proof (rule Max_eqI)
    show "finite (set xs)" by simp
    show "y \<le> last (sort xs)" if "y \<in> set xs" for y
      using that by (intro sorted_le_last) auto
    show "last (sort xs) \<in> set xs" using last_in_set [OF n] by simp
  qed
  then show ?thesis by simp
qed

lemma extract_locality_years:
  "year_from (extract_locality d) = year_from d \<and> year_to (extract_locality d) = year_to d"
  by (simp add: extract_locality_def split: option.splits prod.splits)

lemma extract_years_total: "\<exists>d'. extract_years d = Inr d'"
  by (simp add: extract_years_def Let_def ints_of_findall thenE_def)

lemma extract_years_min_max:
  assumes "\<not> truthy_int (year_from d) \<or> \<not> truthy_int (year_to d)"
    and "2 \<le> length (years_in (query d))"
  shows "extract_years d =
    Inr (d\<lparr>year_from := Some (Min (set (years_in (query d)))),
           year_to := Some (Max (set (years_in (query d))))\<rparr>)"
proof -
  have ne: "years_in (query d) \<noteq> []" using assms(2) by auto
  have len: "2 \<le> length (findall_year (query d))"
    using assms(2) by (simp add: years_in_def)
  show ?thesis
    using assms(1) len
    by (auto simp: extract_years_def Let_def ints_of_findall thenE_def
        hd_sort_Min [OF ne] last_sort_Max [OF ne])
qed

lemma check_year_order_missing:
  "year_from d = None \<or> year_to d = None \<Longrightarrow> check_year_order d = Inr d"
  by (auto simp: check_year_order_def truthy_int_def)

lemma validate_missing_bound:
  assumes "year_from d = None \<or> year_to d = None"
  shows "\<exists>d'. validate d = Inr d'"
proof -
  obtain d2 where "extract_years d = Inr d2" using extract_years_total by blast
  then show ?thesis
    using check_year_order_missing [OF assms] by (simp add: validate_def thenE_def)
qed




lemma year_field_truthy: "year_field_ok (Some y) \<Longrightarrow> truthy_int (Some y)"
  by (simp add: year_field_ok_def truthy_int_def)

lemma is_valid_fields:
  "is_valid req = Inl e \<Longrightarrow> \<exists>msg. e = ValidationError msg"
proof (cases "fields_ok req")
  case False
  assume "is_valid req = Inl e"
  with False show ?thesis by (auto simp: is_valid_def to_internal_value_def thenE_def)
next
  case True
  assume a: "is_valid req = Inl e"
  define d where "d = \<lparr>locality = map_option str_strip (locality req), year_range = None,
               property_type = property_type req, year_from = year_from req,
               year_to = year_to req, query = str_strip (the (query_param req))\<rparr>"
  have v: "validate d = Inl e"
    using a True by (simp add: is_valid_def to_internal_value_def thenE_def d_def)
  obtain d2 where "extract_years d = Inr d2" using extract_years_total by blast
  then show ?thesis using v
    by (auto simp: validate_def thenE_def check_year_order_def split: if_splits)
qed

lemma is_valid_year_order:
  assumes "year_from req = Some a" and "year_to req = Some b" and "b < a"
  shows "\<exists>msg. is_valid req = Inl (ValidationError msg)"
proof (cases "fields_ok req")
  case False
  then show ?thesis by (simp add: is_valid_def to_internal_value_def thenE_def)
next
  case True
  then have "truthy_int (Some a)" "truthy_int (Some b)"
    using assms by (auto simp: fields_ok_def intro: year_field_truthy)
  then show ?thesis using True assms
    by (simp add: is_valid_def to_internal_value_def thenE_def validate_def check_year_order_def)
qed

lemma is_valid_year_order_message:
  assumes "year_from req = Some a" and "year_to req = Some b" and "b < a" and "fields_ok req"
  shows "is_valid req = Inl (ValidationError year_order_message)"
proof -
  have "truthy_int (Some a)" "truthy_int (Some b)"
    using assms by (auto simp: fields_ok_def intro: year_field_truthy)
  then show ?thesis using assms
    by (simp add: is_valid_def to_internal_value_def thenE_def validate_def check_year_order_def)
qed

lemma is_valid_missing_bound:
  assumes "year_from req = None \<or> year_to req = None" and "fields_ok req"
  shows "\<exists>d. is_valid req = Inr d"
proof -
  define d where "d = \<lparr>locality = map_option str_strip (locality req), year_range = None,
               property_type = property_type req, year_from = year_from req,
               year_to = year_to req, query = str_strip (the (query_param req))\<rparr>"
  have "year_from d = None \<or> year_to d = None" using assms(1) by (simp add: d_def)
  then obtain d' where "validate d = Inr d'" using validate_missing_bound by blast
  then show ?thesis using assms(2)
    by (simp add: is_valid_def to_internal_value_def thenE_def d_def)
qed

text \<open>
  C4. A request that supplies both year bounds with \<open>year_from\<close> after \<open>year_to\<close> is
  rejected with a validation error, and the view answers it as a bad request whatever the
  dataset is, so nothing is filtered; when the fields are otherwise valid the error is the
  one about the order of the years. A request whose fields are valid and that leaves a
  bound out is not rejected.
\<close>

theorem year_order_rejected:
  "(year_from req = Some a \<and> year_to req = Some b \<and> b < a \<longrightarrow>
      (\<exists>msg. is_valid req = Inl (ValidationError msg)
           \<and> (\<forall>df. analyze e df req = BadRequest (ValidationError msg))))
   \<and> (year_from req = Some a \<and> year_to req = Some b \<and> b < a \<and> fields_ok req \<longrightarrow>
      is_valid req = Inl (ValidationError year_order_message))
   \<and> ((year_from req = None \<or> year_to req = None) \<and> fields_ok req \<longrightarrow>
      (\<exists>d. is_valid req = Inr d))"
proof (intro conjI impI)
  assume h: "year_from req = Some a \<and> year_to req = Some b \<and> b < a"
  then obtain msg where "is_valid req = Inl (ValidationError msg)"
    using is_valid_year_order by blast
  then show "\<exists>msg. is_valid req = Inl (ValidationError msg)
           \<and> (\<forall>df. analyze e df req = BadRequest (ValidationError msg))"
    by (simp add: analyze_def)
next
  assume "year_from req = Some a \<and> year_to req = Some b \<and> b < a \<and> fields_ok req"
  then show "is_valid req = Inl (ValidationError year_order_message)"
    using is_valid_year_order_message by blast
next
  assume "(year_from req = None \<or> year_to req = None) \<and> fields_ok req"
  then show "\<exists>d. is_valid req = Inr d"
    using is_valid_missing_bound by blast
qed

lemma sample_request_fields:
  "fields_ok (sample_request (Some 2023) (Some 2020) (py ''trends in Wakad''))"
  "fields_ok (sample_request (Some 2023) None (py ''trends in Wakad''))"
  by (simp_all add: fields_ok_def sample_request_def year_field_ok_def truthy_def
      str_strip_def py_def is_space_def)

theorem year_order_rejected_witness:
  "fields_ok (sample_request (Some 2023) (Some 2020) (py ''trends in Wakad''))
   \<and> is_valid (sample_request (Some 2023) (Some 2020) (py ''trends in Wakad'')) =
       Inl (ValidationError year_order_message)
   \<and> analyze sample_env sample_df (sample_request (Some 2023) (Some 2020) (py ''trends in Wakad'')) =
       BadRequest (ValidationError year_order_message)
   \<and> fields_ok (sample_request (Some 2023) None (py ''trends in Wakad''))
   \<and> (\<exists>d. is_valid (sample_request (Some 2023) None (py ''trends in Wakad'')) = Inr d)"
  using year_order_rejected
      [of "sample_request (Some 2023) (Some 2020) (py ''trends in Wakad'')" 2023 2020 sample_env]
    year_order_rejected
      [of "sample_request (Some 2023) None (py ''trends in Wakad'')" 2023 2020 sample_env]
    sample_request_fields
  by (auto simp: sample_request_def)

text \<open>
  C2, at the request \<open>{query: "compare 2019 and 2023", year_from: 2021}\<close>: validation
  succeeds and the supplied \<open>year_from\<close> is replaced by 2019.
\<close>

theorem supplied_year_from_replaced:
  "is_valid (sample_request (Some 2021) None (py ''compare 2019 and 2023'')) =
     Inr \<lparr>locality = None, year_range = None, property_type = None,
          year_from = Some 2019, year_to = Some 2023,
          query = py ''compare 2019 and 2023''\<rparr>"
proof -
  let ?q = "py ''compare 2019 and 2023''"
  let ?d = "\<lparr>locality = None, year_range = None, property_type = None,
            year_from = Some 2021, year_to = None, query = ?q\<rparr>"
  have q: "str_strip ?q = ?q"
    by (simp add: str_strip_def py_def is_space_def)
  have 1: "to_internal_value (sample_request (Some 2021) None ?q) = Inr ?d"
    by (simp add: to_internal_value_def fields_ok_def sample_request_def year_field_ok_def
        truthy_def q py_eq_Nil)
  have ys: "years_in ?q = [2019, 2023]"
    by (simp add: years_in_def year_value_def py_def is_digit_def)
  have 2: "extract_years ?d = Inr (?d\<lparr>year_from := Some 2019, year_to := Some 2023\<rparr>)"
    using extract_years_min_max [of ?d] by (simp add: truthy_int_def ys)
  have 3: "extract_locality (?d\<lparr>year_from := Some 2019, year_to := Some 2023\<rparr>) =
           ?d\<lparr>year_from := Some 2019, year_to := Some 2023\<rparr>"
    by (simp add: extract_locality_def locality_mapping_def truthy_def text_eval)
  have 4: "check_year_order ?d = Inr ?d"
    by (simp add: check_year_order_def truthy_int_def)
  show ?thesis
    using 3 by (simp add: is_valid_def 1 validate_def 2 4 thenE_def)
qed

text \<open>The other inference steps keep what the caller supplied.\<close>

lemma validate_keeps_locality:
  assumes "truthy (locality d)" and "validate d = Inr d'"
  shows "locality d' = locality d"
proof -
  obtain d2 where e: "extract_years d = Inr d2" using extract_years_total by blast
  then have l: "locality d2 = locality d"
    by (auto simp: extract_years_def Let_def ints_of_findall thenE_def split: if_splits)
  have "d' = extract_locality d2"
    using assms(2) e by (auto simp: validate_def thenE_def check_year_order_def split: if_splits)
  then show ?thesis using assms(1) l by (simp add: extract_locality_def)
qed

lemma validate_keeps_both_years:
  assumes "truthy_int (year_from d)" and "truthy_int (year_to d)" and "validate d = Inr d'"
  shows "year_from d' = year_from d \<and> year_to d' = year_to d"
proof -
  have "extract_years d = Inr d" using assms(1,2) by (simp add: extract_years_def)
  then have "d' = extract_locality d"
    using assms(3) by (auto simp: validate_def thenE_def check_year_order_def split: if_splits)
  then show ?thesis by (simp add: extract_locality_years)
qed

lemma resolve_filters_keeps:
  "year_from (resolve_filters df q f) = year_from f"
  "year_to (resolve_filters df q f) = year_to f"
  "truthy (locality f) \<Longrightarrow> locality (resolve_filters df q f) = locality f"
  "truthy (year_range f) \<Longrightarrow> year_range (resolve_filters df q f) = year_range f"
  "truthy (property_type f) \<Longrightarrow> property_type (resolve_filters df q f) = property_type f"
  by (auto simp: resolve_filters_def infer_property_type_def infer_year_range_def
      infer_locality_def split: option.splits prod.splits)

section \<open>Normalization: properties\<close>

lemma sort_values_sorted: "sorted (map row_key (sort_values rs))"
  by (simp add: sort_values_def)

lemma sort_values_mset: "mset (sort_values rs) = mset rs"
  by (simp add: sort_values_def)

lemma sort_values_stable:
  "filter (\<lambda>r. row_key r = k) (sort_values rs) = filter (\<lambda>r. row_key r = k) rs"
  unfolding sort_values_def by (rule sort_key_stable)

lemma load_data_cases:
  assumes "load_data parse prefer recs src = Inr df"
  shows "(\<exists>rs. database_rows parse recs = Inr rs \<and> rows df = sort_values rs)
       \<or> (\<exists>raw rs. src = Some raw \<and> external_rows parse raw = Inr rs \<and> rows df = sort_values rs)"
  using assms
  by (auto simp: load_data_def load_from_database_def load_from_external_source_def thenE_def
      split: if_splits sum.splits option.splits)

text \<open>
  C7. Whatever the source, a dataset that loads is sorted by \<open>(final_location, year)\<close>,
  non-decreasing, and holds exactly the rows that survive normalization, those of equal
  key in the order they had in the input.
\<close>

theorem load_data_sorted_stable:
  assumes "load_data parse prefer recs src = Inr df"
  shows "sorted (map row_key (rows df))
    \<and> (\<exists>rs. (database_rows parse recs = Inr rs
              \<or> (\<exists>raw. src = Some raw \<and> external_rows parse raw = Inr rs))
          \<and> mset (rows df) = mset rs
          \<and> (\<forall>k. filter (\<lambda>r. row_key r = k) (rows df) = filter (\<lambda>r. row_key r = k) rs))"
proof -
  from load_data_cases [OF assms] obtain rs where
    src: "database_rows parse recs = Inr rs \<or> (\<exists>raw. src = Some raw \<and> external_rows parse raw = Inr rs)"
    and r: "rows df = sort_values rs"
    by blast
  show ?thesis
    unfolding r using src
    by (auto simp: sort_values_sorted sort_values_mset sort_values_stable)
qed

lemma db_cells_eq:
  "filter (\<lambda>(c, v). c \<notin> set key_columns)
     (coerce_numeric parse False (zip DB_FIELDS (db_record loc y cty))) = db_cells"
  by (simp add: db_cells_def db_record_def DB_FIELDS_def COLUMN_MAP_def key_columns_def
      coerce_numeric_def NUMERIC_COLUMNS_def to_numeric_def py_def)

lemma db_lookup:
  "lookup (coerce_numeric parse False (zip DB_FIELDS (db_record loc y cty))) (py ''year'') = Num y"
  "lookup (coerce_numeric parse False (zip DB_FIELDS (db_record loc y cty))) (py ''final_location'')
     = Str loc"
  "lookup (coerce_numeric parse False (zip DB_FIELDS (db_record loc y cty))) (py ''city'') = cty"
  by (simp_all add: lookup_def db_record_def DB_FIELDS_def COLUMN_MAP_def
      coerce_numeric_def NUMERIC_COLUMNS_def to_numeric_def py_def)

lemma db_table_rows:
  "database_rows parse db_table =
     Inr [db_row (py ''Wakad'') 2021 (py ''Pune''), db_row (py ''Baner'') 2020 (py ''Pune''),
          db_row (py ''Wakad'') 2020 (py ''Pune''), db_row (py ''Wakad'') 2020 (py ''Mumbai'')]"
  by (simp add: database_rows_def db_table_def db_lookup db_cells_eq db_row_def thenE_def
      astype_int_def trunc_def text_of_def)

lemma db_table_loaded:
  "load_data parse True db_table None =
     Inr \<lparr>columns = DB_FIELDS,
          rows = [db_row (py ''Baner'') 2020 (py ''Pune''), db_row (py ''Wakad'') 2020 (py ''Pune''),
                  db_row (py ''Wakad'') 2020 (py ''Mumbai''), db_row (py ''Wakad'') 2021 (py ''Pune'')]\<rparr>"
proof -
  have ne: "db_table \<noteq> []" by (simp add: db_table_def)
  have k: "row_key (db_row loc y cty) = (loc, y)" for loc y cty
    by (simp add: row_key_def db_row_def)
  have lt: "py ''Baner'' < py ''Wakad''" "\<not> py ''Wakad'' < py ''Baner''" "py ''Baner'' \<noteq> py ''Wakad''"
    by (simp_all add: py_def)
  have "sort_values [db_row (py ''Wakad'') 2021 (py ''Pune''), db_row (py ''Baner'') 2020 (py ''Pune''),
          db_row (py ''Wakad'') 2020 (py ''Pune''), db_row (py ''Wakad'') 2020 (py ''Mumbai'')] =
        [db_row (py ''Baner'') 2020 (py ''Pune''), db_row (py ''Wakad'') 2020 (py ''Pune''),
         db_row (py ''Wakad'') 2020 (py ''Mumbai''), db_row (py ''Wakad'') 2021 (py ''Pune'')]"
    by (simp add: sort_values_def k lt less_eq_prod_def less_prod_def)
  then show ?thesis
    using ne by (simp add: load_data_def load_from_database_def db_table_rows thenE_def)
qed

theorem load_data_sorted_stable_witness:
  "load_data parse_plain True db_table None =
     Inr \<lparr>columns = DB_FIELDS,
          rows = [db_row (py ''Baner'') 2020 (py ''Pune''), db_row (py ''Wakad'') 2020 (py ''Pune''),
                  db_row (py ''Wakad'') 2020 (py ''Mumbai''), db_row (py ''Wakad'') 2021 (py ''Pune'')]\<rparr>
   \<and> sorted (map row_key
        [db_row (py ''Baner'') 2020 (py ''Pune''), db_row (py ''Wakad'') 2020 (py ''Pune''),
         db_row (py ''Wakad'') 2020 (py ''Mumbai''), db_row (py ''Wakad'') 2021 (py ''Pune'')])
   \<and> filter (\<lambda>r. row_key r = (py ''Wakad'', 2020))
        [db_row (py ''Baner'') 2020 (py ''Pune''), db_row (py ''Wakad'') 2020 (py ''Pune''),
         db_row (py ''Wakad'') 2020 (py ''Mumbai''), db_row (py ''Wakad'') 2021 (py ''Pune'')] =
       [db_row (py ''Wakad'') 2020 (py ''Pune''), db_row (py ''Wakad'') 2020 (py ''Mumbai'')]"
proof -
  note l = db_table_loaded [of parse_plain]
  have k: "row_key (db_row loc y cty) = (loc, y)" for loc y cty
    by (simp add: row_key_def db_row_def)
  have ne: "py ''Baner'' \<noteq> py ''Wakad''" by (simp add: py_def)
  from load_data_sorted_stable [OF l] have "sorted (map row_key
        [db_row (py ''Baner'') 2020 (py ''Pune''), db_row (py ''Wakad'') 2020 (py ''Pune''),
         db_row (py ''Wakad'') 2020 (py ''Mumbai''), db_row (py ''Wakad'') 2021 (py ''Pune'')])"
    by simp
  then show ?thesis using l by (simp add: k ne)
qed

section \<open>Aggregation: properties\<close>

lemma df_empty_rows: "rows df = [] \<Longrightarrow> df_empty df"
  by (simp add: df_empty_def)

lemma process_query_empty:
  assumes "filter_data (clock_year e) df (resolve_filters df q f) = Inr fd" and "rows fd = []"
  shows "process_query e df q f =
     Inr \<lparr>result_query = q, summary = no_data,
          chart_data = \<lparr>labels = [], datasets = []\<rparr>, table_data = [],
          result_filters = resolve_filters df q f\<rparr>"
  using assms
  by (simp add: process_query_def Let_def thenE_def generate_summary_def
      prepare_chart_data_def prepare_table_data_def df_empty_rows)

text \<open>
  C3. On a frame with no rows the summary is the fixed sentence, the chart has no labels
  and no series, and the table is empty; and a query whose filters leave no rows is
  answered with exactly these.
\<close>

theorem empty_rows_no_data:
  assumes "rows df = []"
  shows "generate_summary fmt df = Inr (py ''No data available for the specified filters.'')
    \<and> prepare_chart_data rnd df = Inr \<lparr>labels = [], datasets = []\<rparr>
    \<and> prepare_table_data rnd df = []
    \<and> (filter_data (clock_year e) df0 (resolve_filters df0 q f) = Inr df \<longrightarrow>
         process_query e df0 q f =
           Inr \<lparr>result_query = q,
                summary = py ''No data available for the specified filters.'',
                chart_data = \<lparr>labels = [], datasets = []\<rparr>, table_data = [],
                result_filters = resolve_filters df0 q f\<rparr>)"
  using assms process_query_empty [of e df0 q f df]
  by (simp add: generate_summary_def prepare_chart_data_def prepare_table_data_def
      df_empty_rows no_data_def)

theorem empty_rows_no_data_witness:
  "rows (sample_df\<lparr>rows := []\<rparr>) = []
   \<and> generate_summary (float_format sample_env) (sample_df\<lparr>rows := []\<rparr>) =
       Inr (py ''No data available for the specified filters.'')
   \<and> prepare_chart_data (float_round sample_env) (sample_df\<lparr>rows := []\<rparr>) = Inr \<lparr>labels = [], datasets = []\<rparr>
   \<and> prepare_table_data (float_round sample_env) (sample_df\<lparr>rows := []\<rparr>) = []
   \<and> filter_data (clock_year sample_env) sample_df
        (resolve_filters sample_df (py ''trends'') (no_filters\<lparr>locality := Some (py ''Aundh'')\<rparr>)) =
       Inr (sample_df\<lparr>rows := []\<rparr>)
   \<and> process_query sample_env sample_df (py ''trends'')
        (no_filters\<lparr>locality := Some (py ''Aundh'')\<rparr>) =
       Inr \<lparr>result_query = py ''trends'',
            summary = py ''No data available for the specified filters.'',
            chart_data = \<lparr>labels = [], datasets = []\<rparr>, table_data = [],
            result_filters = resolve_filters sample_df (py ''trends'')
              (no_filters\<lparr>locality := Some (py ''Aundh'')\<rparr>)\<rparr>"
proof -
  let ?f = "no_filters\<lparr>locality := Some (py ''Aundh'')\<rparr>"
  have rf: "resolve_filters sample_df (py ''trends'') ?f = ?f"
    by (simp add: resolve_filters_def infer_locality_def infer_year_range_def
        infer_property_type_def no_filters_def truthy_def PROPERTY_COLUMNS_def
        match_range_def four_digits_def match_last_def text_eval)
  have fd: "filter_data (clock_year sample_env) sample_df ?f = Inr (sample_df\<lparr>rows := []\<rparr>)"
    by (simp add: filter_data_def apply_locality_def apply_year_range_def
        apply_property_type_def no_filters_def truthy_def sample_df_def sample_row_def text_eval)
  show ?thesis
    using empty_rows_no_data [of "sample_df\<lparr>rows := []\<rparr>" "float_format sample_env" "float_round sample_env"
        sample_env sample_df
        "py ''trends''" ?f] fd
    by (simp add: rf)
qed

lemma foldl_first_max:
  fixes p :: "'a \<times> real"
  shows "\<exists>pre post. p # qs = pre @ foldl (\<lambda>best q. if snd best < snd q then q else best) p qs # post
     \<and> (\<forall>q \<in> set pre. snd q < snd (foldl (\<lambda>best q. if snd best < snd q then q else best) p qs))
     \<and> (\<forall>q \<in> set post. snd q \<le> snd (foldl (\<lambda>best q. if snd best < snd q then q else best) p qs))"
proof (induction qs rule: rev_induct)
  case Nil
  have "[p] = [] @ p # []" by simp
  then show ?case by fastforce
next
  case (snoc q qs)
  let ?f = "\<lambda>best q. if snd best < snd q then q else best"
  let ?b = "foldl ?f p qs"
  from snoc obtain pre post where d: "p # qs = pre @ ?b # post"
    and lt: "\<forall>x \<in> set pre. snd x < snd ?b" and le: "\<forall>x \<in> set post. snd x \<le> snd ?b"
    by blast
  show ?case
  proof (cases "snd ?b < snd q")
    case True
    then have b: "foldl ?f p (qs @ [q]) = q" by simp
    have e1: "p # qs @ [q] = (pre @ ?b # post) @ q # []" using d by simp
    have e2: "\<forall>x \<in> set (pre @ ?b # post). snd x < snd q"
    proof
      fix x assume "x \<in> set (pre @ ?b # post)"
      then consider "x \<in> set pre" | "x = ?b" | "x \<in> set post" by auto
      then show "snd x < snd q"
      proof cases
        case 1
        then have "snd x < snd ?b" using lt by blast
        then show ?thesis using True by (rule less_trans)
      next
        case 2
        then show ?thesis using True by simp
      next
        case 3
        then have "snd x \<le> snd ?b" using le by blast
        then show ?thesis using True by (rule le_less_trans)
      qed
    qed
    show ?thesis unfolding b
      by (rule exI [of _ "pre @ ?b # post"], rule exI [of _ "[]"]) (use e1 e2 in simp)
  next
    case False
    then have b: "foldl ?f p (qs @ [q]) = ?b" by simp
    have e1: "p # qs @ [q] = pre @ ?b # (post @ [q])" using d by simp
    have e2: "\<forall>x \<in> set (post @ [q]). snd x \<le> snd ?b"
      using False le by auto
    show ?thesis unfolding b
      by (rule exI [of _ pre], rule exI [of _ "post @ [q]"]) (use e1 e2 lt in simp)
  qed
qed

text \<open>\<open>idxmax\<close> is the label of the first of the greatest sums.\<close>

lemma idxmax_first_max:
  assumes "ps \<noteq> []"
  shows "\<exists>pre c m post. idxmax ps = Some c \<and> ps = pre @ (c, m) # post
     \<and> (\<forall>q \<in> set pre. snd q < m) \<and> (\<forall>q \<in> set post. snd q \<le> m)"
proof -
  from assms obtain p qs where ps: "ps = p # qs" by (cases ps) auto
  let ?b = "foldl (\<lambda>best q. if snd best < snd q then q else best) p qs"
  from foldl_first_max [of p qs] obtain pre post where
    "p # qs = pre @ ?b # post" "\<forall>q \<in> set pre. snd q < snd ?b" "\<forall>q \<in> set post. snd q \<le> snd ?b"
    by blast
  moreover have "idxmax ps = Some (fst ?b)" by (simp add: idxmax_def ps)
  ultimately show ?thesis using ps
    by (intro exI [of _ pre] exI [of _ "fst ?b"] exI [of _ "snd ?b"] exI [of _ post]) simp
qed

text \<open>The sold columns include \<open>total_sold\<close>.\<close>

lemma total_sold_is_sold_column:
  "py ''total_sold'' \<in> set (columns df) \<Longrightarrow> py ''total_sold'' \<in> set (sold_columns df)"
  by (simp add: sold_columns_def py_def suffix_def)

lemma db_cells_value:
  "db_cells =
     [(py ''loc_lat'', NaN), (py ''loc_lng'', NaN), (py ''total_sales'', Num 5000000),
      (py ''total_sold'', Num 10), (py ''flat_sold'', Num 6), (py ''office_sold'', Num 4),
      (py ''others_sold'', Num 0), (py ''shop_sold'', NaN), (py ''commercial_sold'', NaN),
      (py ''other_sold'', NaN), (py ''residential_sold'', NaN),
      (py ''flat_weighted_avg_rate'', Num 7000), (py ''office_weighted_avg_rate'', NaN),
      (py ''others_weighted_avg_rate'', NaN), (py ''shop_weighted_avg_rate'', NaN),
      (py ''flat_prevailing_rate_range'', Str (py ''6000-8000'')),
      (py ''office_prevailing_rate_range'', Str []),
      (py ''others_prevailing_rate_range'', Str []),
      (py ''shop_prevailing_rate_range'', Str []),
      (py ''total_units'', NaN), (py ''total_carpet_area'', NaN), (py ''flat_total'', NaN),
      (py ''shop_total'', NaN), (py ''office_total'', NaN), (py ''others_total'', NaN)]"
  by (simp add: db_cells_def db_record_def DB_FIELDS_def COLUMN_MAP_def key_columns_def py_def)

lemma one_row_sold_columns:
  "sold_columns one_row_df =
     [py ''total_sold'', py ''flat_sold'', py ''office_sold'', py ''others_sold'',
      py ''shop_sold'', py ''commercial_sold'', py ''other_sold'', py ''residential_sold'']"
  by (simp add: sold_columns_def one_row_df_def DB_FIELDS_def COLUMN_MAP_def suffix_to_prefix
      py_def)

lemma top_total:
  "top_property [(py ''total_sold'', 10), (py ''flat_sold'', 6), (py ''office_sold'', 4),
          (py ''others_sold'', 0), (py ''shop_sold'', 0), (py ''commercial_sold'', 0),
          (py ''other_sold'', 0), (py ''residential_sold'', 0)] = py ''Total''"
  by (simp add: top_property_def idxmax_def str_title_def py_def is_upper_def is_lower_def
      upper_char_def lower_char_def)

lemma one_row_column:
  "column one_row_df c = [case map_of db_cells c of Some v \<Rightarrow> v | None \<Rightarrow> NaN]"
  by (simp add: column_def one_row_df_def db_row_def cell_def)

lemma one_row_nansum:
  "nansum (column one_row_df (py ''total_sold'')) = Inr 10"
  "nansum (column one_row_df (py ''flat_sold'')) = Inr 6"
  "nansum (column one_row_df (py ''office_sold'')) = Inr 4"
  "nansum (column one_row_df (py ''others_sold'')) = Inr 0"
  "nansum (column one_row_df (py ''shop_sold'')) = Inr 0"
  "nansum (column one_row_df (py ''commercial_sold'')) = Inr 0"
  "nansum (column one_row_df (py ''other_sold'')) = Inr 0"
  "nansum (column one_row_df (py ''residential_sold'')) = Inr 0"
  "nansum (column one_row_df (py ''total_sales'')) = Inr 5000000"
  by (simp_all add: one_row_column db_cells_value thenE_def py_def)

lemma one_row_nanmean:
  "nanmean (column one_row_df (py ''flat_weighted_avg_rate'')) = Inr (Some 7000)"
  "nanmean (column one_row_df (py ''office_weighted_avg_rate'')) = Inr None"
  "nanmean (column one_row_df (py ''shop_weighted_avg_rate'')) = Inr None"
  by (simp_all add: one_row_column db_cells_value nanmean_def count_numbers_def thenE_def py_def)

lemma one_row_sums:
  "property_sums one_row_df =
     Inr [(py ''total_sold'', 10), (py ''flat_sold'', 6), (py ''office_sold'', 4),
          (py ''others_sold'', 0), (py ''shop_sold'', 0), (py ''commercial_sold'', 0),
          (py ''other_sold'', 0), (py ''residential_sold'', 0)]"
  by (simp add: property_sums_def one_row_sold_columns one_row_nansum thenE_def)

text \<open>
  C10, at the dataset of one row with \<open>total_sold = 10\<close>, \<open>flat_sold = 6\<close>,
  \<open>office_sold = 4\<close>, \<open>others_sold = 0\<close> and the other sold counts missing: the sums are
  taken over every column whose name ends in \<open>_sold\<close>, \<open>total_sold\<close> among them, so the
  segment reported is \<open>Total\<close>, not \<open>Flat\<close>, and the units sold are 20.
\<close>

theorem most_active_segment_is_total:
  "property_sums one_row_df =
     Inr [(py ''total_sold'', 10), (py ''flat_sold'', 6), (py ''office_sold'', 4),
          (py ''others_sold'', 0), (py ''shop_sold'', 0), (py ''commercial_sold'', 0),
          (py ''other_sold'', 0), (py ''residential_sold'', 0)]
   \<and> generate_summary fmt one_row_df =
       Inr (py ''Between 2020 and 2020, Wakad recorded '' @ rupee @ fmt (Some 5000000)
            @ py '' in total sales with '' @ fmt (Some 20) @ py '' units sold. ''
            @ py ''Average prices per sq.ft (Flat/Office/Shop) were ''
            @ rupee @ fmt (Some 7000) @ py '' / '' @ rupee @ fmt None @ py '' / ''
            @ rupee @ fmt None @ py ''. '' @ py ''Most active segment: Total.'')"
proof -
  have e: "\<not> df_empty one_row_df"
    by (simp add: df_empty_def one_row_df_def DB_FIELDS_def COLUMN_MAP_def)
  have l: "unique (map final_location (rows one_row_df)) = [py ''Wakad'']"
    and ys: "sort (unique (map year (rows one_row_df))) = [2020]"
    by (simp_all add: one_row_df_def unique_def db_row_def)
  have y: "str_of_int 2020 = py ''2020''"
    by (simp add: str_of_int_def digits.simps py_def)
  have u: "units_sold [(py ''total_sold'', 10), (py ''flat_sold'', 6), (py ''office_sold'', 4),
          (py ''others_sold'', 0), (py ''shop_sold'', 0), (py ''commercial_sold'', 0),
          (py ''other_sold'', 0), (py ''residential_sold'', 0)] = 20"
    by (simp add: units_sold_def)
  have "generate_summary fmt one_row_df =
       Inr (py ''Between '' @ py ''2020'' @ py '' and '' @ py ''2020'' @ py '', '' @ py ''Wakad''
            @ py '' recorded '' @ rupee @ fmt (Some 5000000)
            @ py '' in total sales with '' @ fmt (Some 20) @ py '' units sold. ''
            @ py ''Average prices per sq.ft (Flat/Office/Shop) were ''
            @ rupee @ fmt (Some 7000) @ py '' / '' @ rupee @ fmt None @ py '' / ''
            @ rupee @ fmt None @ py ''. '' @ py ''Most active segment: '' @ py ''Total'' @ py ''.'')"
    by (simp add: generate_summary_def e l ys one_row_nansum one_row_nanmean one_row_sums
        top_total u y thenE_def)
  then show ?thesis by (simp add: one_row_sums py_def)
qed

end
